theory Spec2Isabelle
  imports Complex_Main
begin

section \<open>JavaScript string and array primitives\<close>

text \<open>
  Strings are lists of characters; one \<^typ>\<open>char\<close> stands for one code unit in the range
  0..255.  The functions below follow the ECMAScript definitions of the library calls that
  the sources use: \<^verbatim>\<open>split('\n')\<close>, \<^verbatim>\<open>join('\n')\<close>, \<^verbatim>\<open>slice\<close>, \<^verbatim>\<open>splice\<close>,
  \<^verbatim>\<open>startsWith\<close>, \<^verbatim>\<open>includes\<close> and the printing of an integer inside a template literal.
\<close>

text \<open>\<^verbatim>\<open>s.split('\n')\<close>: never empty, the empty string gives one empty line.\<close>

fun split_nl :: "string \<Rightarrow> string list" where
  "split_nl [] = ['''']"
| "split_nl (c # cs) =
     (if c = CHR 0x0A then [] # split_nl cs
      else (case split_nl cs of
              [] \<Rightarrow> [c # []]
            | l # ls \<Rightarrow> (c # l) # ls))"

text \<open>\<^verbatim>\<open>xs.join('\n')\<close>.\<close>

fun join_nl :: "string list \<Rightarrow> string" where
  "join_nl [] = []"
| "join_nl [x] = x"
| "join_nl (x # y # ys) = x @ CHR 0x0A # join_nl (y # ys)"

text \<open>
  The relative index of \<^verbatim>\<open>slice\<close> and \<^verbatim>\<open>splice\<close>: a negative index counts from the end,
  and the result is clamped to \<open>0..len\<close>.
\<close>

definition js_rel_index :: "nat \<Rightarrow> int \<Rightarrow> nat" where
  "js_rel_index len i = (if i < 0 then nat (max (int len + i) 0) else min (nat i) len)"

text \<open>\<^verbatim>\<open>xs.slice(start, end)\<close>; \<open>None\<close> is the omitted second argument.\<close>

definition js_slice :: "'a list \<Rightarrow> int \<Rightarrow> int option \<Rightarrow> 'a list" where
  "js_slice xs start fin =
     (let len = length xs;
          k = js_rel_index len start;
          e = (case fin of None \<Rightarrow> len | Some f \<Rightarrow> js_rel_index len f)
      in take (e - k) (drop k xs))"

text \<open>
  \<^verbatim>\<open>xs.splice(start, deleteCount, ...items)\<close>, returning the array after the mutation.
\<close>

definition js_splice :: "'a list \<Rightarrow> int \<Rightarrow> int \<Rightarrow> 'a list \<Rightarrow> 'a list" where
  "js_splice xs start deleteCount items =
     (let len = length xs;
          k = js_rel_index len start;
          d = nat (min (max deleteCount 0) (int len - int k))
      in take k xs @ items @ drop (k + d) xs)"

definition startsWith :: "string \<Rightarrow> char \<Rightarrow> bool" where
  "startsWith l c = (case l of [] \<Rightarrow> False | x # _ \<Rightarrow> x = c)"

text \<open>\<^verbatim>\<open>l.slice(1)\<close> on a string.\<close>

definition slice1 :: "string \<Rightarrow> string" where
  "slice1 l = drop 1 l"

fun is_prefix :: "string \<Rightarrow> string \<Rightarrow> bool" where
  "is_prefix [] s = True"
| "is_prefix (p # ps) [] = False"
| "is_prefix (p # ps) (c # cs) = (p = c \<and> is_prefix ps cs)"

text \<open>\<^verbatim>\<open>s.includes(sub)\<close>.\<close>

fun includes_str :: "string \<Rightarrow> string \<Rightarrow> bool" where
  "includes_str [] sub = (sub = [])"
| "includes_str (c # cs) sub = (is_prefix sub (c # cs) \<or> includes_str cs sub)"

definition digit_char :: "nat \<Rightarrow> char" where
  "digit_char d = char_of (48 + int d)"

fun show_nat_fuel :: "nat \<Rightarrow> nat \<Rightarrow> string" where
  "show_nat_fuel 0 n = [digit_char (n mod 10)]"
| "show_nat_fuel (Suc f) n =
     (if n < 10 then [digit_char n] else show_nat_fuel f (n div 10) @ [digit_char (n mod 10)])"

text \<open>Decimal printing of a natural number; \<open>n\<close> itself is enough fuel for its digits.\<close>

definition show_nat :: "nat \<Rightarrow> string" where
  "show_nat n = show_nat_fuel n n"

text \<open>\<^verbatim>\<open>`${i}`\<close> for an integer \<open>i\<close>.\<close>

definition show_int :: "int \<Rightarrow> string" where
  "show_int i = (if i < 0 then CHR ''-'' # show_nat (nat (- i)) else show_nat (nat i))"


text \<open>
  \<^verbatim>\<open>xs.sort(cmp)\<close>: the sort of the runtime is stable, so for a comparator that is a
  consistent ordering its result is the stable insertion sort below.
\<close>

fun insort_cmp :: "('a \<Rightarrow> 'a \<Rightarrow> int) \<Rightarrow> 'a \<Rightarrow> 'a list \<Rightarrow> 'a list" where
  "insort_cmp cmp x [] = [x]"
| "insort_cmp cmp x (y # ys) = (if cmp x y \<le> 0 then x # y # ys else y # insort_cmp cmp x ys)"

definition js_sort :: "('a \<Rightarrow> 'a \<Rightarrow> int) \<Rightarrow> 'a list \<Rightarrow> 'a list" where
  "js_sort cmp xs = foldr (insort_cmp cmp) xs []"


section \<open>Regular expressions of the secret catalogue\<close>

text \<open>
  Every pattern of \<^verbatim>\<open>SECRET_PATTERNS\<close> is a sequence of character classes, each under a
  greedy quantifier \<open>{lo,hi}\<close> (a literal character is a one-element class with \<open>{1,1}\<close>).
  \<open>match_here\<close> is the backtracking matcher of ECMAScript on such a sequence: a quantifier
  first takes as many characters as it can and gives them back one at a time while the rest
  of the pattern fails.  It returns the length of the match that starts at the head of the
  string.
\<close>

datatype item = Item "char \<Rightarrow> bool" nat "nat option"

fun span_len :: "(char \<Rightarrow> bool) \<Rightarrow> nat option \<Rightarrow> string \<Rightarrow> nat" where
  "span_len c hi [] = 0"
| "span_len c hi (x # xs) =
     (if hi \<noteq> Some 0 \<and> c x then Suc (span_len c (map_option (\<lambda>h. h - 1) hi) xs)
      else 0)"

fun try_counts :: "(nat \<Rightarrow> nat option) \<Rightarrow> nat \<Rightarrow> nat \<Rightarrow> nat option" where
  "try_counts k lo 0 = (if lo = 0 then k 0 else None)"
| "try_counts k lo (Suc n) =
     (if Suc n < lo then None
      else (case k (Suc n) of
              Some r \<Rightarrow> Some r
            | None \<Rightarrow> try_counts k lo n))"

fun match_here :: "item list \<Rightarrow> string \<Rightarrow> nat option" where
  "match_here [] s = Some 0"
| "match_here (Item c lo hi # rest) s =
     try_counts (\<lambda>n. map_option (\<lambda>m. n + m) (match_here rest (drop n s))) lo (span_len c hi s)"

text \<open>
  A scan with the \<^verbatim>\<open>g\<close> flag from index 0: the leftmost match at each position, the next
  search starting where the match ended (one further on after an empty match).  A piece is
  a character that no match covers (\<open>Inl\<close>) or a match (\<open>Inr\<close>).
\<close>

function scan :: "item list \<Rightarrow> string \<Rightarrow> (char + string) list" where
  "scan p [] = (case match_here p [] of Some _ \<Rightarrow> [Inr []] | None \<Rightarrow> [])"
| "scan p (c # cs) =
     (case match_here p (c # cs) of
        None \<Rightarrow> Inl c # scan p cs
      | Some 0 \<Rightarrow> Inr [] # Inl c # scan p cs
      | Some (Suc n) \<Rightarrow> Inr (take (Suc n) (c # cs)) # scan p (drop n cs))"
  by pat_completeness auto
termination
  by (relation "measure (\<lambda>(p, s). length s)") auto

text \<open>\<^verbatim>\<open>s.match(re)\<close> with a global pattern: the matches, or \<^verbatim>\<open>null\<close> when there is none.\<close>

definition js_match :: "item list \<Rightarrow> string \<Rightarrow> string list option" where
  "js_match p s =
     (let ms = concat (map (case_sum (\<lambda>c. []) (\<lambda>m. [m])) (scan p s))
      in if ms = [] then None else Some ms)"

text \<open>
  \<^verbatim>\<open>s.replace(re, r)\<close> with a global pattern and a replacement free of \<^verbatim>\<open>$\<close>.
\<close>

definition js_replace :: "item list \<Rightarrow> string \<Rightarrow> string \<Rightarrow> string" where
  "js_replace p r s = concat (map (case_sum (\<lambda>c. [c]) (\<lambda>m. r)) (scan p s))"

text \<open>
  \<^verbatim>\<open>re.test(s)\<close> for a pattern without the \<^verbatim>\<open>g\<close> flag: a match at some position.  A
  pattern with alternatives is the list of its alternatives.
\<close>

fun js_test :: "item list \<Rightarrow> string \<Rightarrow> bool" where
  "js_test p [] = (case match_here p [] of Some _ \<Rightarrow> True | None \<Rightarrow> False)"
| "js_test p (c # cs) = (case match_here p (c # cs) of Some _ \<Rightarrow> True | None \<Rightarrow> js_test p cs)"

definition js_test_alt :: "item list list \<Rightarrow> string \<Rightarrow> bool" where
  "js_test_alt alts s = list_ex (\<lambda>p. js_test p s) alts"

subsection \<open>Character classes\<close>

text \<open>The code of a character, and the test that it lies in a range.\<close>

definition char_code :: "char \<Rightarrow> int" where
  "char_code c = of_char c"

definition in_range :: "char \<Rightarrow> char \<Rightarrow> char \<Rightarrow> bool" where
  "in_range lo hi c = (char_code lo \<le> char_code c \<and> char_code c \<le> char_code hi)"

definition is_digit :: "char \<Rightarrow> bool" where
  "is_digit c = in_range (CHR ''0'') (CHR ''9'') c"

definition is_upper :: "char \<Rightarrow> bool" where
  "is_upper c = in_range (CHR ''A'') (CHR ''Z'') c"

definition is_lower :: "char \<Rightarrow> bool" where
  "is_lower c = in_range (CHR ''a'') (CHR ''z'') c"

definition is_alpha :: "char \<Rightarrow> bool" where
  "is_alpha c = (is_upper c \<or> is_lower c)"

definition is_alnum :: "char \<Rightarrow> bool" where
  "is_alnum c = (is_alpha c \<or> is_digit c)"

text \<open>\<^verbatim>\<open>\s\<close> on code units below 256: tab, LF, VT, FF, CR, space and U+00A0.\<close>

definition is_space :: "char \<Rightarrow> bool" where
  "is_space c = (in_range (CHR 0x09) (CHR 0x0D) c \<or> c = CHR 0x20 \<or> c = CHR 0xA0)"

text \<open>\<^verbatim>\<open>s.trim()\<close>.\<close>

definition trim :: "string \<Rightarrow> string" where
  "trim s = rev (dropWhile is_space (rev (dropWhile is_space s)))"

definition to_upper :: "char \<Rightarrow> char" where
  "to_upper c = (if is_lower c then char_of (char_code c - 32) else c)"

definition to_lower :: "char \<Rightarrow> char" where
  "to_lower c = (if is_upper c then char_of (char_code c + 32) else c)"

text \<open>\<^verbatim>\<open>s.toUpperCase()\<close> on ASCII text.\<close>

definition toUpperCase :: "string \<Rightarrow> string" where
  "toUpperCase s = map to_upper s"

definition single :: "(char \<Rightarrow> bool) \<Rightarrow> item" where
  "single c = Item c 1 (Some 1)"

text \<open>A literal, and a literal under the \<^verbatim>\<open>i\<close> flag.\<close>

definition lits :: "string \<Rightarrow> item list" where
  "lits s = map (\<lambda>c. single (\<lambda>x. x = c)) s"

definition ilits :: "string \<Rightarrow> item list" where
  "ilits s = map (\<lambda>c. let u = to_upper c; l = to_lower c in single (\<lambda>x. x = u \<or> x = l)) s"


section \<open>LogPreprocessor\<close>

record secret_pattern =
  pattern :: "item list"
  name :: string

text \<open>The ten entries of \<^verbatim>\<open>LogPreprocessor.SECRET_PATTERNS\<close>, in the catalogue's order.\<close>

definition SECRET_PATTERNS :: "secret_pattern list" where
  "SECRET_PATTERNS =
    [ \<lparr>pattern = lits ''ghp_'' @ [Item is_alnum 36 (Some 36)], name = ''GitHub Token''\<rparr>,
      \<lparr>pattern = lits ''ghu_'' @ [Item is_alnum 36 (Some 36)], name = ''GitHub User Token''\<rparr>,
      \<lparr>pattern = lits ''ghs_'' @ [Item is_alnum 36 (Some 36)], name = ''GitHub App Token''\<rparr>,
      \<lparr>pattern = lits ''AKIA'' @ [Item (\<lambda>c. is_digit c \<or> is_upper c) 16 (Some 16)],
        name = ''AWS Access Key''\<rparr>,
      \<lparr>pattern = ilits ''aws_secret_access_key'' @
          [Item is_space 0 None, single (\<lambda>c. c = CHR ''=''), Item is_space 0 None,
           Item (\<lambda>c. \<not> is_space c) 1 None],
        name = ''AWS Secret Key''\<rparr>,
      \<lparr>pattern = lits ''http'' @ [Item (\<lambda>c. c = CHR ''s'') 0 (Some 1)] @ lits ''://'' @
          [Item (\<lambda>c. c \<noteq> CHR '':'') 1 None, single (\<lambda>c. c = CHR '':''),
           Item (\<lambda>c. c \<noteq> CHR ''@'') 1 None, single (\<lambda>c. c = CHR ''@'')],
        name = ''Basic Auth URL''\<rparr>,
      \<lparr>pattern =
          [Item (\<lambda>c. is_alnum c \<or> c \<in> set ''+_.-'') 1 None, single (\<lambda>c. c = CHR ''@''),
           Item (\<lambda>c. is_alnum c \<or> c \<in> set ''.-'') 1 None, single (\<lambda>c. c = CHR ''.''),
           Item is_alpha 2 None],
        name = ''Email Address''\<rparr>,
      \<lparr>pattern = lits ''Bearer '' @
          [Item (\<lambda>c. is_alnum c \<or> c \<in> set ''-._~+/'') 1 None, Item (\<lambda>c. c = CHR ''='') 0 None],
        name = ''Bearer Token''\<rparr>,
      \<lparr>pattern = ilits ''Authorization:'' @
          [Item is_space 0 None, Item (\<lambda>c. \<not> is_space c) 1 None],
        name = ''Authorization Header''\<rparr>,
      \<lparr>pattern = ilits ''token'' @
          [Item (\<lambda>c. c = CHR 0x22 \<or> c = CHR 0x27 \<or> c = CHR '':'' \<or> is_space c \<or> c = CHR ''='')
             1 None,
           Item (\<lambda>c. is_alnum c \<or> c \<in> set ''-_'') 1 None],
        name = ''Token Value''\<rparr> ]"

text \<open>\<^verbatim>\<open>'[REDACTED_' + name.toUpperCase().replace(/\s+/g, '_') + ']'\<close>\<close>

definition placeholder :: "string \<Rightarrow> string" where
  "placeholder n =
     ''[REDACTED_'' @ js_replace [Item is_space 1 None] ''_'' (toUpperCase n) @ '']''"

record redact_result =
  processed :: string
  secretsCount :: nat
  redactionPatterns :: "string list"

text \<open>
  One turn of the loop of \<^verbatim>\<open>redact\<close>; \<open>redactionPatterns\<close> is the insertion-ordered
  \<^verbatim>\<open>Set\<close> of the source.
\<close>

definition redact_step :: "redact_result \<Rightarrow> secret_pattern \<Rightarrow> redact_result" where
  "redact_step st sp =
     (case js_match (pattern sp) (processed st) of
        None \<Rightarrow> st
      | Some matches \<Rightarrow>
          \<lparr>processed = js_replace (pattern sp) (placeholder (name sp)) (processed st),
           secretsCount = secretsCount st + length matches,
           redactionPatterns =
             (if name sp \<in> set (redactionPatterns st) then redactionPatterns st
              else redactionPatterns st @ [name sp])\<rparr>)"

definition redact :: "string \<Rightarrow> redact_result" where
  "redact logs =
     foldl redact_step \<lparr>processed = logs, secretsCount = 0, redactionPatterns = []\<rparr> SECRET_PATTERNS"

record prune_result =
  pruned :: string
  prunedLines :: int
  totalLines :: int

definition marker_text :: "int \<Rightarrow> string" where
  "marker_text n =
     ''[FORGE LOG PRUNING: Removed '' @ show_int n @ '' lines of intermediate build output]''"

text \<open>The element that \<^verbatim>\<open>prune\<close> puts between head and tail: the text between two newlines.\<close>

definition pruning_marker :: "int \<Rightarrow> string" where
  "pruning_marker n = CHR 0x0A # marker_text n @ [CHR 0x0A]"

definition prune :: "string \<Rightarrow> int \<Rightarrow> int \<Rightarrow> prune_result" where
  "prune logs headLines tailLines =
     (let lines = split_nl logs;
          total = int (length lines)
      in if total \<le> headLines + tailLines
         then \<lparr>pruned = logs, prunedLines = 0, totalLines = total\<rparr>
         else
           (let head = js_slice lines 0 (Some headLines);
                tail = js_slice lines (- tailLines) None;
                n = total - (headLines + tailLines);
                result = join_nl (head @ [pruning_marker n] @ tail)
            in \<lparr>pruned = result, prunedLines = n, totalLines = total\<rparr>))"

text \<open>
  The lines of an output that are not lines of the log it was made from, in the order of
  the output.
\<close>

definition synthesised :: "string \<Rightarrow> string \<Rightarrow> string list" where
  "synthesised logs out = filter (\<lambda>l. l \<notin> set (split_nl logs)) (split_nl out)"


section \<open>PatchGenerator and DiffEngine\<close>

record PatchHunk =
  hunk_filename :: string
  oldStart :: int
  oldLines :: int
  newStart :: int
  newLines :: int
  lines :: "string list"

record UnifiedPatch =
  filename :: string
  hunks :: "PatchHunk list"
  isNewFile :: bool
  isDeletedFile :: bool
  isBinaryFile :: bool

datatype op_type = Equal | Insert | Delete

record diff_op =
  op_kind :: op_type
  op_value :: "string list"

text \<open>The number of leading positions at which two arrays agree.\<close>

fun common_prefix :: "string list \<Rightarrow> string list \<Rightarrow> nat" where
  "common_prefix (x # xs) (y # ys) = (if x = y then Suc (common_prefix xs ys) else 0)"
| "common_prefix xs ys = 0"

text \<open>
  The two look-ahead loops of \<^verbatim>\<open>myersDiff\<close>: over the offsets \<open>d\<close> below
  \<open>min 10 (length xs)\<close>, in rising order, the best length becomes \<open>d\<close> whenever \<open>xs ! d\<close> is the
  line looked for and \<open>d\<close> exceeds the best so far.
\<close>

definition lookahead :: "string list \<Rightarrow> string \<Rightarrow> nat" where
  "lookahead xs y =
     foldl (\<lambda>best d. if xs ! d = y \<and> best < d then d else best) 0 [0 ..< min 10 (length xs)]"

text \<open>
  \<^verbatim>\<open>myersDiff\<close> on the lines still to be read, \<open>original.slice(i)\<close> and
  \<open>modified.slice(j)\<close>: the loop only ever looks forward from \<open>i\<close> and \<open>j\<close>.
\<close>

function myersDiff :: "string list \<Rightarrow> string list \<Rightarrow> diff_op list" where
  "myersDiff [] [] = []"
| "myersDiff [] (y # ys) = [\<lparr>op_kind = Insert, op_value = y # ys\<rparr>]"
| "myersDiff (x # xs) [] = [\<lparr>op_kind = Delete, op_value = x # xs\<rparr>]"
| "myersDiff (x # xs) (y # ys) =
     (if x = y then
        (let n = common_prefix xs ys
         in \<lparr>op_kind = Equal, op_value = take (Suc n) (x # xs)\<rparr> #
              myersDiff (drop n xs) (drop n ys))
      else
        (let bestDeleteLen = lookahead (x # xs) y;
             bestInsertLen = lookahead (y # ys) x
         in if bestInsertLen \<le> bestDeleteLen \<and> 0 < bestDeleteLen then
              \<lparr>op_kind = Delete, op_value = take bestDeleteLen (x # xs)\<rparr> #
                myersDiff (drop bestDeleteLen (x # xs)) (y # ys)
            else if 0 < bestInsertLen then
              \<lparr>op_kind = Insert, op_value = take bestInsertLen (y # ys)\<rparr> #
                myersDiff (x # xs) (drop bestInsertLen (y # ys))
            else
              \<lparr>op_kind = Delete, op_value = [x]\<rparr> # myersDiff xs (y # ys)))"
  by pat_completeness auto
termination
  by (relation "measure (\<lambda>(xs, ys). length xs + length ys)") auto

text \<open>The loop state of \<^verbatim>\<open>computeHunks\<close>.\<close>

record hunk_state =
  done_hunks :: "PatchHunk list"
  currentHunk :: "PatchHunk option"
  oldLineNum :: int
  newLineNum :: int

definition fresh_hunk :: "string \<Rightarrow> int \<Rightarrow> int \<Rightarrow> PatchHunk" where
  "fresh_hunk fname os ns =
     \<lparr>hunk_filename = fname, oldStart = os, oldLines = 0, newStart = ns, newLines = 0, lines = []\<rparr>"

text \<open>
  The head of the \<^verbatim>\<open>equal\<close> branch: a hunk that holds more than \<open>2 * context\<close> lines is
  closed, its counts taken from the lines without the last \<open>context\<close> ones.
\<close>

definition close_hunk :: "int \<Rightarrow> hunk_state \<Rightarrow> hunk_state" where
  "close_hunk context st =
     (case currentHunk st of
        None \<Rightarrow> st
      | Some h \<Rightarrow>
          if context * 2 < int (length (lines h)) then
            (let trimmedLines = js_slice (lines h) 0 (Some (- context));
                 h' = h\<lparr>newLines :=
                          int (length (filter (\<lambda>l. \<not> startsWith l (CHR ''-'')) trimmedLines)) - context,
                        oldLines :=
                          int (length (filter (\<lambda>l. \<not> startsWith l (CHR ''+'')) trimmedLines)) - context\<rparr>
             in st\<lparr>done_hunks := done_hunks st @ [h'], currentHunk := None\<rparr>)
          else st)"

definition push_line :: "PatchHunk \<Rightarrow> string \<Rightarrow> PatchHunk" where
  "push_line h l = h\<lparr>lines := lines h @ [l]\<rparr>"

definition equal_line :: "string \<Rightarrow> int \<Rightarrow> hunk_state \<Rightarrow> string \<Rightarrow> hunk_state" where
  "equal_line fname context st l =
     (let h = (case currentHunk st of
                 None \<Rightarrow> fresh_hunk fname (max 1 (oldLineNum st - context))
                           (max 1 (newLineNum st - context))
               | Some h \<Rightarrow> h)
      in st\<lparr>currentHunk := Some (push_line h (CHR '' '' # l)),
            oldLineNum := oldLineNum st + 1,
            newLineNum := newLineNum st + 1\<rparr>)"

definition open_hunk :: "string \<Rightarrow> hunk_state \<Rightarrow> PatchHunk" where
  "open_hunk fname st =
     (case currentHunk st of
        None \<Rightarrow> fresh_hunk fname (oldLineNum st) (newLineNum st)
      | Some h \<Rightarrow> h)"

definition insert_line :: "hunk_state \<Rightarrow> string \<Rightarrow> hunk_state" where
  "insert_line st l =
     st\<lparr>currentHunk := map_option (\<lambda>h. push_line h (CHR ''+'' # l)) (currentHunk st),
        newLineNum := newLineNum st + 1\<rparr>"

definition delete_line :: "hunk_state \<Rightarrow> string \<Rightarrow> hunk_state" where
  "delete_line st l =
     st\<lparr>currentHunk := map_option (\<lambda>h. push_line h (CHR ''-'' # l)) (currentHunk st),
        oldLineNum := oldLineNum st + 1\<rparr>"

text \<open>One turn of the loop over the diff operations.\<close>

definition hunk_step :: "string \<Rightarrow> int \<Rightarrow> hunk_state \<Rightarrow> diff_op \<Rightarrow> hunk_state" where
  "hunk_step fname context st op =
     (case op_kind op of
        Equal \<Rightarrow> foldl (equal_line fname context) (close_hunk context st) (op_value op)
      | Insert \<Rightarrow>
          foldl insert_line (st\<lparr>currentHunk := Some (open_hunk fname st)\<rparr>) (op_value op)
      | Delete \<Rightarrow>
          foldl delete_line (st\<lparr>currentHunk := Some (open_hunk fname st)\<rparr>) (op_value op))"

definition computeHunks :: "string \<Rightarrow> string list \<Rightarrow> string list \<Rightarrow> int \<Rightarrow> PatchHunk list" where
  "computeHunks fname originalLines modifiedLines context =
     (let st = foldl (hunk_step fname context)
                 \<lparr>done_hunks = [], currentHunk = None, oldLineNum = 1, newLineNum = 1\<rparr>
                 (myersDiff originalLines modifiedLines)
      in case currentHunk st of
           None \<Rightarrow> done_hunks st
         | Some h \<Rightarrow> done_hunks st @ [h])"

definition generatePatch :: "string \<Rightarrow> string \<Rightarrow> string \<Rightarrow> int \<Rightarrow> UnifiedPatch" where
  "generatePatch fname original modified context =
     (let originalLines = split_nl original;
          modifiedLines = split_nl modified;
          isNew = (length original = 0 \<and> 0 < length modified);
          isDeleted = (0 < length original \<and> length modified = 0)
      in if isNew then
           \<lparr>filename = fname,
            hunks = [\<lparr>hunk_filename = fname, oldStart = 0, oldLines = 0, newStart = 1,
                      newLines = int (length modifiedLines),
                      lines = map (\<lambda>line. CHR ''+'' # line) modifiedLines\<rparr>],
            isNewFile = True, isDeletedFile = False, isBinaryFile = False\<rparr>
         else if isDeleted then
           \<lparr>filename = fname,
            hunks = [\<lparr>hunk_filename = fname, oldStart = 1,
                      oldLines = int (length originalLines), newStart = 0, newLines = 0,
                      lines = map (\<lambda>line. CHR ''-'' # line) originalLines\<rparr>],
            isNewFile = False, isDeletedFile = True, isBinaryFile = False\<rparr>
         else
           \<lparr>filename = fname,
            hunks = computeHunks fname originalLines modifiedLines context,
            isNewFile = False, isDeletedFile = False, isBinaryFile = False\<rparr>)"

text \<open>\<^verbatim>\<open>applyHunk\<close>: the two \<^verbatim>\<open>splice\<close> calls, at \<open>oldStart - 1\<close> and at \<open>newStart - 1\<close>.\<close>

definition applyHunk :: "string list \<Rightarrow> PatchHunk \<Rightarrow> string list" where
  "applyHunk ls hunk =
     (let insertions = map slice1 (filter (\<lambda>l. startsWith l (CHR ''+'')) (lines hunk));
          deletions = int (length (filter (\<lambda>l. startsWith l (CHR ''-'')) (lines hunk)));
          result = js_splice ls (oldStart hunk - 1) deletions []
      in js_splice result (newStart hunk - 1) 0 insertions)"

text \<open>\<^verbatim>\<open>applyPatch\<close>: the hunks by falling \<open>newStart\<close>, applied one after the other.\<close>

definition applyPatch :: "string \<Rightarrow> UnifiedPatch \<Rightarrow> string" where
  "applyPatch original patch =
     (let sortedHunks = js_sort (\<lambda>a b. newStart b - newStart a) (hunks patch)
      in join_nl (foldl applyHunk (split_nl original) sortedHunks))"

text \<open>\<^verbatim>\<open>DiffEngine.reversePatch\<close>.\<close>

definition reverse_line :: "string \<Rightarrow> string" where
  "reverse_line line =
     (if startsWith line (CHR ''+'') then CHR ''-'' # slice1 line
      else if startsWith line (CHR ''-'') then CHR ''+'' # slice1 line
      else line)"

definition reversePatch :: "UnifiedPatch \<Rightarrow> UnifiedPatch" where
  "reversePatch patch =
     patch\<lparr>hunks :=
             map (\<lambda>hunk. hunk\<lparr>oldStart := newStart hunk, oldLines := newLines hunk,
                               newStart := oldStart hunk, newLines := oldLines hunk,
                               lines := map reverse_line (lines hunk)\<rparr>) (hunks patch),
           isNewFile := isDeletedFile patch,
           isDeletedFile := isNewFile patch\<rparr>"

text \<open>
  What the unified-diff format means by a hunk that applies: the old side of the hunk, its
  context and removed lines in order, is the text of the document at \<open>oldStart\<close>.
\<close>

definition old_side :: "PatchHunk \<Rightarrow> string list" where
  "old_side h = map slice1 (filter (\<lambda>l. \<not> startsWith l (CHR ''+'')) (lines h))"

definition new_side :: "PatchHunk \<Rightarrow> string list" where
  "new_side h = map slice1 (filter (\<lambda>l. \<not> startsWith l (CHR ''-'')) (lines h))"

definition hunk_applies :: "string list \<Rightarrow> PatchHunk \<Rightarrow> bool" where
  "hunk_applies ls h =
     (1 \<le> oldStart h \<and>
      take (length (old_side h)) (drop (nat (oldStart h - 1)) ls) = old_side h)"

definition patch_applies :: "string \<Rightarrow> UnifiedPatch \<Rightarrow> bool" where
  "patch_applies original patch = list_all (hunk_applies (split_nl original)) (hunks patch)"

text \<open>The counts that a hunk header must carry.\<close>

definition count_context :: "PatchHunk \<Rightarrow> int" where
  "count_context h = int (length (filter (\<lambda>l. startsWith l (CHR '' '')) (lines h)))"

definition count_add :: "PatchHunk \<Rightarrow> int" where
  "count_add h = int (length (filter (\<lambda>l. startsWith l (CHR ''+'')) (lines h)))"

definition count_remove :: "PatchHunk \<Rightarrow> int" where
  "count_remove h = int (length (filter (\<lambda>l. startsWith l (CHR ''-'')) (lines h)))"

definition hunk_counts_ok :: "PatchHunk \<Rightarrow> bool" where
  "hunk_counts_ok h =
     (oldLines h = count_context h + count_remove h \<and>
      newLines h = count_context h + count_add h)"


section \<open>ConfidenceScorer\<close>

text \<open>
  Numbers of the scorer and of the gate are modelled as exact rationals: the weights, the
  thresholds and the confidence are decimal constants and sums of a few of them.
\<close>

datatype failure_type = Auth | Build | Test | Lint | Deploy | Network | Timeout | Env | Unknown

datatype severity = Info | Warning | Error | Critical

record FailureEvent =
  ev_type :: failure_type
  ev_severity :: severity
  message :: string
  lineNumber :: int
  step :: string
  ev_context :: "(string \<times> string) list"
  stackTrace :: "string option"

record FailureRule =
  rule_id :: string
  rule_name :: string
  rule_pattern :: "item list list"
  failureType :: failure_type
  rule_severity :: severity
  confidenceModifier :: rat
  extractContext :: "(string \<Rightarrow> (string \<times> string) list) option"









text \<open>\<^verbatim>\<open>Math.round\<close>: the nearest integer, a half going up.\<close>

definition js_round :: "rat \<Rightarrow> int" where
  "js_round x = \<lfloor>x + 1 / 2\<rfloor>"





section \<open>ConfidenceGate\<close>

record ValidationResult =
  valid :: bool
  errors :: "string list"
  warnings :: "string list"
  fix_hints :: "string list"

record FileValidation =
  val_filename :: string
  extension :: string
  result :: ValidationResult

datatype FixAction = AutoApply | ManualReviewAction | EscalateAction | Reject

record FixGateDecision =
  action :: FixAction
  confidence :: rat
  reasoning :: string
  risks :: "string list"
  recommendations :: "string list"

record FixGateConfig =
  autoApplyThreshold :: rat
  manualReviewThreshold :: rat
  escalateThreshold :: rat
  rejectThreshold :: rat
  allowAutoApplyOnCritical :: bool
  requiresSecurityReview :: bool
  requiresPerformanceReview :: bool

text \<open>The configuration of a gate built without arguments.\<close>

definition default_config :: FixGateConfig where
  "default_config =
     \<lparr>autoApplyThreshold = 9 / 10, manualReviewThreshold = 6 / 10, escalateThreshold = 3 / 10,
      rejectThreshold = 0, allowAutoApplyOnCritical = False, requiresSecurityReview = True,
      requiresPerformanceReview = True\<rparr>"

definition action_name :: "FixAction \<Rightarrow> string" where
  "action_name a =
     (case a of AutoApply \<Rightarrow> ''auto-apply'' | ManualReviewAction \<Rightarrow> ''manual-review''
      | EscalateAction \<Rightarrow> ''escalate'' | Reject \<Rightarrow> ''reject'')"

text \<open>\<^verbatim>\<open>/word/i.test(s)\<close> for a literal word, and the anchored tests.\<close>

definition includes_ci :: "string \<Rightarrow> string \<Rightarrow> bool" where
  "includes_ci s w = includes_str (toUpperCase s) (toUpperCase w)"

definition endsWith :: "string \<Rightarrow> string \<Rightarrow> bool" where
  "endsWith s suffix = is_prefix (rev suffix) (rev s)"

text \<open>\<^verbatim>\<open>x.toFixed(1)\<close> below \<open>10^21\<close>.\<close>

definition toFixed1 :: "rat \<Rightarrow> string" where
  "toFixed1 x =
     (let a = \<bar>x\<bar>;
          n = nat (js_round (a * 10));
          body = show_nat (n div 10) @ ''.'' @ show_nat (n mod 10)
      in if x < 0 then CHR ''-'' # body else body)"

definition join_comma :: "string list \<Rightarrow> string" where
  "join_comma xs = concat (case xs of [] \<Rightarrow> [] | y # ys \<Rightarrow> y # map (\<lambda>z. '', '' @ z) ys)"

definition isCriticalFile :: "string \<Rightarrow> bool" where
  "isCriticalFile f =
     (f = ''package.json'' \<or> f = ''tsconfig.json'' \<or> is_prefix ''.env'' f \<or>
      includes_ci f ''secrets'' \<or> includes_str f ''.github/workflows'' \<or>
      endsWith f ''src/extension.ts'' \<or> endsWith f ''src/agent/analyzer/orchestrator.ts'')"

definition touchesSecurityCode :: "UnifiedPatch list \<Rightarrow> bool" where
  "touchesSecurityCode patches =
     list_ex (\<lambda>patch. list_ex (\<lambda>w. includes_ci (filename patch) w)
        [''auth'', ''secret'', ''password'', ''token'', ''credential'', ''permission'',
         ''access'', ''security'']) patches"

definition touchesPerformanceCriticalCode :: "UnifiedPatch list \<Rightarrow> bool" where
  "touchesPerformanceCriticalCode patches =
     list_ex (\<lambda>patch.
        list_ex (\<lambda>w. includes_ci (filename patch) w)
          [''cache'', ''database'', ''query'', ''optimization'', ''performance''] \<or>
        endsWith (filename patch) ''index.ts'' \<or> endsWith (filename patch) ''index.tsx'') patches"

definition assessRisks :: "FileValidation list \<Rightarrow> UnifiedPatch list \<Rightarrow> string list \<Rightarrow> string list" where
  "assessRisks validations patches riskFactors =
     (let ws = concat (map (\<lambda>v. warnings (result v)) validations);
          r1 = riskFactors @
               (if 0 < length ws then [show_nat (length ws) @ '' validation warning(s) found'']
                else []);
          criticalFiles = filter (\<lambda>p. isCriticalFile (filename p)) patches;
          r2 = r1 @
               (if 0 < length criticalFiles
                then [''Modifies critical files: '' @ join_comma (map filename criticalFiles)]
                else []);
          r3 = r2 @
               (if 5 < length patches
                then [''Large change set: '' @ show_nat (length patches) @ '' files modified'']
                else []);
          deletions = filter isDeletedFile patches;
          r4 = r3 @
               (if 0 < length deletions
                then [''Deletes '' @ show_nat (length deletions) @
                      '' file(s) - irreversible operation'']
                else []);
          additions = filter isNewFile patches;
          r5 = r4 @
               (if 3 < length additions
                then [''Creates '' @ show_nat (length additions) @ '' new file(s)'']
                else [])
      in if length r5 = 0 then [''Low risk - localized changes with validation passing'']
         else r5)"

definition generateRecommendations :: "rat \<Rightarrow> FileValidation list \<Rightarrow> UnifiedPatch list \<Rightarrow> string list" where
  "generateRecommendations conf validations patches =
     (let c1 = (if conf < 7 / 10
                then [''Consider gathering more context about the failure'',
                      ''Review the analysis reasoning carefully'']
                else []);
          hasWarnings = list_ex (\<lambda>v. 0 < length (warnings (result v))) validations;
          c2 = c1 @ (if hasWarnings then [''Address validation warnings before applying''] else []);
          totalChanges =
            foldl (\<lambda>sum p. sum + foldl (\<lambda>hSum h. hSum + length (lines h)) 0 (hunks p)) 0 patches;
          c3 = c2 @
               (if 500 < totalChanges
                then [''Large patch - consider breaking into smaller changes'',
                      ''Test in staging environment before production'']
                else []);
          c4 = c3 @
               (if list_ex (\<lambda>p. includes_str (filename p) ''package.json'') patches
                then [''Review dependency changes carefully'',
                      ''Run dependency security audit after applying'']
                else []);
          c5 = c4 @
               (if list_ex (\<lambda>p. includes_str (filename p) ''.github/workflows'') patches
                then [''Verify workflow syntax with GitHub'', ''Test workflow in test branch first'']
                else [])
      in if length c5 = 0 then [''Fix looks good - proceed with confidence''] else c5)"

text \<open>\<^verbatim>\<open>validations.some(v => v.result.errors.length > 0)\<close>\<close>

definition has_errors :: "FileValidation list \<Rightarrow> bool" where
  "has_errors validations = list_ex (\<lambda>v. 0 < length (errors (result v))) validations"

definition percent :: "rat \<Rightarrow> string" where
  "percent conf = toFixed1 (conf * 100) @ ''%''"

text \<open>\<^verbatim>\<open>ConfidenceGate.evaluateFix\<close>, the checks in the order of the source.\<close>

definition evaluateFix ::
  "FixGateConfig \<Rightarrow> rat \<Rightarrow> FileValidation list \<Rightarrow> UnifiedPatch list \<Rightarrow> bool \<Rightarrow> string list
     \<Rightarrow> FixGateDecision" where
  "evaluateFix config conf validations patches isCriticalFailure riskFactors =
     (let rs = assessRisks validations patches riskFactors;
          recs = generateRecommendations conf validations patches
      in if requiresSecurityReview config \<and> touchesSecurityCode patches then
           \<lparr>action = ManualReviewAction, confidence = conf,
            reasoning = ''Fix modifies security-sensitive code and requires manual review'',
            risks = rs @ [''Modifies authentication or secrets handling''],
            recommendations = recs\<rparr>
         else if requiresPerformanceReview config \<and> touchesPerformanceCriticalCode patches then
           \<lparr>action = ManualReviewAction, confidence = conf,
            reasoning = ''Fix modifies performance-critical code and requires manual review'',
            risks = rs @ [''May impact application performance''],
            recommendations = recs\<rparr>
         else if has_errors validations then
           \<lparr>action = Reject, confidence = conf,
            reasoning = ''Fix contains validation errors that must be resolved'',
            risks = rs @ [''Contains syntax or structural errors''],
            recommendations = recs @ [''Fix validation errors before attempting to apply'']\<rparr>
         else if autoApplyThreshold config \<le> conf then
           (if isCriticalFailure \<and> \<not> allowAutoApplyOnCritical config then
              \<lparr>action = ManualReviewAction, confidence = conf,
               reasoning = ''Critical failure requires manual review despite high confidence'',
               risks = rs @ [''Critical workflow failure - requires verification''],
               recommendations =
                 recs @ [''Manual review strongly recommended for critical failures'']\<rparr>
            else
              \<lparr>action = AutoApply, confidence = conf,
               reasoning = ''High confidence ('' @ percent conf @ '') - safe to auto-apply'',
               risks = filter (\<lambda>r. \<not> includes_str r ''Low risk'') rs,
               recommendations = recs\<rparr>)
         else if manualReviewThreshold config \<le> conf then
           \<lparr>action = ManualReviewAction, confidence = conf,
            reasoning = ''Moderate confidence ('' @ percent conf @
                        '') - requires human review before applying'',
            risks = rs,
            recommendations = recs @ [''Review diff carefully before applying'']\<rparr>
         else if escalateThreshold config \<le> conf then
           \<lparr>action = EscalateAction, confidence = conf,
            reasoning = ''Low confidence ('' @ percent conf @ '') - escalate to domain expert'',
            risks = rs @ [''High uncertainty in fix - may require expert review''],
            recommendations =
              recs @ [''Consider manual investigation or expert consultation'']\<rparr>
         else
           \<lparr>action = Reject, confidence = conf,
            reasoning = ''Very low confidence ('' @ percent conf @
                        '') - fix is not reliable enough to apply'',
            risks = rs @ [''Confidence too low for reliable application''],
            recommendations =
              recs @ [''Consider manual investigation or different fix approach'']\<rparr>)"







section \<open>CILogParser\<close>

text \<open>
  The head of the catalogue \<^verbatim>\<open>DEFAULT_RULES\<close>: its first seven rules, in order.  A parser
  holds \<^verbatim>\<open>[...DEFAULT_RULES, ...customRules]\<close>, so its rule list is this head followed by
  further rules.
\<close>

definition is_dot :: "char \<Rightarrow> bool" where
  "is_dot c = (c \<noteq> CHR 0x0A \<and> c \<noteq> CHR 0x0D)"



record parser_config =
  headLines :: int
  tailLines :: int
  maxLogSize :: nat
  rules :: "FailureRule list"

text \<open>
  \<^verbatim>\<open>line.match(/##\[group\]Run (.+)|##\[item\](.+)/)\<close>: the capture of the leftmost match,
  the text after the marker up to a line terminator.
\<close>

definition capture_after :: "string \<Rightarrow> string \<Rightarrow> string option" where
  "capture_after lit s =
     (let cap = takeWhile is_dot (drop (length lit) s)
      in if is_prefix lit s \<and> cap \<noteq> [] then Some cap else None)"

fun step_match :: "string \<Rightarrow> string option" where
  "step_match [] = None"
| "step_match (c # cs) =
     (case capture_after ''##[group]Run '' (c # cs) of
        Some x \<Rightarrow> Some x
      | None \<Rightarrow>
          (case capture_after ''##[item]'' (c # cs) of
             Some x \<Rightarrow> Some x
           | None \<Rightarrow> step_match cs))"

text \<open>
  \<^verbatim>\<open>line.match(/^\[(.+?)\]|^(\w+):/)\<close>: the shortest bracketed text with at least one
  character, else the word before a colon, both at the start of the line.
\<close>

fun until_close :: "string \<Rightarrow> string option" where
  "until_close [] = None"
| "until_close (c # cs) =
     (if c = CHR '']'' then Some []
      else if is_dot c then map_option ((#) c) (until_close cs)
      else None)"

definition is_word :: "char \<Rightarrow> bool" where
  "is_word c = (is_alnum c \<or> c = CHR ''_'')"

definition name_match :: "string \<Rightarrow> string option" where
  "name_match s =
     (let bracket =
            (case s of
               b # c0 # rest \<Rightarrow>
                 if b = CHR ''['' \<and> is_dot c0 then map_option ((#) c0) (until_close rest)
                 else None
             | _ \<Rightarrow> None);
          w = takeWhile is_word s
      in case bracket of
           Some x \<Rightarrow> Some x
         | None \<Rightarrow> if w \<noteq> [] \<and> is_prefix '':'' (drop (length w) s) then Some w else None)"

text \<open>
  The loop of \<^verbatim>\<open>extractStepName\<close> from line \<open>i\<close> down to \<open>max 0 (currentLine - 20)\<close>;
  \<open>k\<close> counts the lines still to visit.
\<close>

fun step_scan :: "string list \<Rightarrow> nat \<Rightarrow> nat \<Rightarrow> string" where
  "step_scan ls i 0 = ''unknown''"
| "step_scan ls i (Suc k) =
     (case step_match (ls ! i) of
        Some x \<Rightarrow> x
      | None \<Rightarrow>
          (case name_match (ls ! i) of
             Some x \<Rightarrow> x
           | None \<Rightarrow> step_scan ls (i - 1) k))"

definition extractStepName :: "string list \<Rightarrow> nat \<Rightarrow> string" where
  "extractStepName ls currentLine = step_scan ls currentLine (Suc (min currentLine 20))"

definition extractStackTrace :: "string list \<Rightarrow> nat \<Rightarrow> string option" where
  "extractStackTrace ls errorLine =
     (let start = errorLine - 5;
          fin = min (length ls) (errorLine + 15);
          trace = join_nl (js_slice ls (int start) (Some (int fin)))
      in if includes_str trace ''at '' \<or> includes_str trace ''Error:'' \<or> includes_str trace ''stack''
         then Some trace else None)"

text \<open>
  The body of the outer loop of \<^verbatim>\<open>detectFailures\<close> for line \<open>i\<close>: the first rule whose
  pattern the line passes makes the event.  The event's \<^verbatim>\<open>timestamp\<close> is a clock reading
  and is left out.
\<close>

definition detect_line :: "FailureRule list \<Rightarrow> string list \<Rightarrow> nat \<Rightarrow> FailureEvent option" where
  "detect_line rs ls i =
     (let line = ls ! i
      in case find (\<lambda>r. js_test_alt (rule_pattern r) line) rs of
           None \<Rightarrow> None
         | Some r \<Rightarrow>
             Some \<lparr>ev_type = failureType r, ev_severity = rule_severity r,
                   message = trim line, lineNumber = int i + 1,
                   step = extractStepName ls i,
                   ev_context = (case extractContext r of None \<Rightarrow> [] | Some f \<Rightarrow> f line),
                   stackTrace = extractStackTrace ls i\<rparr>)"

definition detectFailures :: "FailureRule list \<Rightarrow> string \<Rightarrow> FailureEvent list" where
  "detectFailures rs logtext =
     (let ls = split_nl logtext in List.map_filter (detect_line rs ls) [0 ..< length ls])"












section \<open>The working tree\<close>

text \<open>
  The file system is a map from paths to file contents.  \<^verbatim>\<open>path.join\<close> is modelled on
  path segments that need no normalising.  Directories are implicit: \<^verbatim>\<open>mkdirSync\<close> with
  \<^verbatim>\<open>recursive\<close> has no effect on the map.  A write or an unlink of a locked path throws, as
  one without permission does; every other call succeeds.
\<close>

record filesystem =
  files :: "string \<Rightarrow> string option"
  locked :: "string \<Rightarrow> bool"

definition path_join :: "string \<Rightarrow> string \<Rightarrow> string" where
  "path_join a b = a @ ''/'' @ b"

definition existsSync :: "filesystem \<Rightarrow> string \<Rightarrow> bool" where
  "existsSync fs p = (files fs p \<noteq> None)"

text \<open>The content read by \<^verbatim>\<open>readFileSync\<close>; every read of the sources is behind \<open>existsSync\<close>.\<close>

definition readFileSync :: "filesystem \<Rightarrow> string \<Rightarrow> string" where
  "readFileSync fs p = (case files fs p of Some c \<Rightarrow> c | None \<Rightarrow> [])"

text \<open>The message of the exception, or the file system after the call.\<close>

definition writeFileSync :: "filesystem \<Rightarrow> string \<Rightarrow> string \<Rightarrow> string + filesystem" where
  "writeFileSync fs p c =
     (if locked fs p then Inl (''EACCES: permission denied, open '' @ p)
      else Inr (fs\<lparr>files := (files fs)(p \<mapsto> c)\<rparr>))"

definition unlinkSync :: "filesystem \<Rightarrow> string \<Rightarrow> string + filesystem" where
  "unlinkSync fs p =
     (if locked fs p then Inl (''EACCES: permission denied, unlink '' @ p)
      else Inr (fs\<lparr>files := (files fs)(p := None)\<rparr>))"

text \<open>\<^verbatim>\<open>m.set(k, v)\<close> on a \<^verbatim>\<open>Map\<close> kept as the list of its entries in insertion order.\<close>

fun map_set :: "(string \<times> 'v) list \<Rightarrow> string \<Rightarrow> 'v \<Rightarrow> (string \<times> 'v) list" where
  "map_set [] k v = [(k, v)]"
| "map_set ((k', v') # m) k v = (if k' = k then (k, v) # m else (k', v') # map_set m k v)"

text \<open>The text that a create patch writes: the added lines of all hunks.\<close>

definition new_file_content :: "UnifiedPatch \<Rightarrow> string" where
  "new_file_content patch =
     join_nl (concat (map (\<lambda>h. map slice1 (filter (\<lambda>l. startsWith l (CHR ''+'')) (lines h)))
                          (hunks patch)))"


section \<open>DryRunSimulator\<close>

datatype step_status = Pending | Success | WarningStatus | ErrorStatus

text \<open>A step of the plan; the free-form \<^verbatim>\<open>details\<close> of the source are display data.\<close>

record DryRunStep =
  step_no :: nat
  step_action :: string
  step_file :: string
  status :: step_status
  step_message :: string
  beforeContent :: "string option"
  afterContent :: "string option"

record DryRunSummary =
  totalSteps :: nat
  successCount :: nat
  warningCount :: nat
  errorCount :: nat
  filesAffected :: nat
  linesChanged :: nat

record DryRunResult =
  dr_success :: bool
  summary :: DryRunSummary
  steps :: "DryRunStep list"
  rollbackPlan :: string
  estimatedImpact :: string

record dry_options =
  validateSyntax :: bool
  checkConflicts :: bool
  estimatePerformance :: bool

record sim_state =
  sim_steps :: "DryRunStep list"
  stepNum :: nat
  n_success :: nat
  n_warning :: nat
  n_error :: nat
  totalLinesChanged :: nat

definition add_step ::
  "sim_state \<Rightarrow> string \<Rightarrow> string \<Rightarrow> step_status \<Rightarrow> string \<Rightarrow> string option \<Rightarrow> string option
     \<Rightarrow> sim_state" where
  "add_step st act f s msg bc ac =
     st\<lparr>sim_steps := sim_steps st @
           [\<lparr>step_no = stepNum st, step_action = act, step_file = f, status = s,
             step_message = msg, beforeContent = bc, afterContent = ac\<rparr>],
        stepNum := stepNum st + 1,
        n_success := n_success st + (if s = Success then 1 else 0),
        n_warning := n_warning st + (if s = WarningStatus then 1 else 0),
        n_error := n_error st + (if s = ErrorStatus then 1 else 0)\<rparr>"

text \<open>The first loop of \<^verbatim>\<open>simulatePatches\<close>, one patch.\<close>

definition sim_patch :: "string \<Rightarrow> filesystem \<Rightarrow> sim_state \<Rightarrow> UnifiedPatch \<Rightarrow> sim_state" where
  "sim_patch baseDir fs st patch =
     (let filePath = path_join baseDir (filename patch)
      in if isNewFile patch then
           add_step st ''create'' (filename patch) Success ''Will create new file'' None None
         else if isDeletedFile patch then
           (if \<not> existsSync fs filePath then
              add_step st ''delete'' (filename patch) ErrorStatus ''Target file does not exist''
                None None
            else
              add_step st ''delete'' (filename patch) WarningStatus
                ''Will permanently delete file'' None None)
         else if \<not> existsSync fs filePath then
           add_step st ''modify'' (filename patch) ErrorStatus ''Target file does not exist''
             None None
         else
           (let original = readFileSync fs filePath;
                modified = applyPatch original patch;
                originalLines = int (length (split_nl original));
                modifiedLines = int (length (split_nl modified));
                changed = nat \<bar>modifiedLines - originalLines\<bar>;
                st' = st\<lparr>totalLinesChanged := totalLinesChanged st + changed\<rparr>
            in if 100 < changed then
                 add_step st' ''modify'' (filename patch) WarningStatus
                   (''Large change ('' @ show_nat changed @ '' lines) - may need careful review'')
                   (Some (take 500 original)) (Some (take 500 modified))
               else
                 add_step st' ''modify'' (filename patch) Success ''Will modify file''
                   (Some (take 300 original)) (Some (take 300 modified))))"

text \<open>The files handed to the validator by the second pass.\<close>

definition sim_modified_files ::
  "string \<Rightarrow> filesystem \<Rightarrow> UnifiedPatch list \<Rightarrow> (string \<times> string) list" where
  "sim_modified_files baseDir fs patches =
     foldl (\<lambda>m patch.
        (let filePath = path_join baseDir (filename patch)
         in if isNewFile patch then map_set m (filename patch) (new_file_content patch)
            else if \<not> isDeletedFile patch \<and> existsSync fs filePath then
              map_set m (filename patch) (applyPatch (readFileSync fs filePath) patch)
            else m)) [] patches"

text \<open>
  \<^verbatim>\<open>checkForConflicts\<close>.  The test \<^verbatim>\<open>p !== patch\<close> of the source compares references; the
  patches are told apart by their position in the array.
\<close>

definition checkForConflicts :: "UnifiedPatch list \<Rightarrow> string list" where
  "checkForConflicts patches =
     (let fileMap = foldl (\<lambda>m p. map_set m (filename p)
                             ((case map_of m (filename p) of None \<Rightarrow> [] | Some ps \<Rightarrow> ps) @ [p]))
                      [] patches;
          multi = concat (map (\<lambda>(f, ps).
                     if 1 < length ps
                     then [''File '' @ f @ '' is modified by multiple patches - may have conflicts'']
                     else []) fileMap);
          both = concat (map (\<lambda>i.
                     (let patch = patches ! i;
                          otherPatches =
                            map snd (filter (\<lambda>(j, p). filename p = filename patch \<and> j \<noteq> i)
                                        (zip [0 ..< length patches] patches))
                      in if isDeletedFile patch \<and> list_ex (\<lambda>p. \<not> isDeletedFile p) otherPatches
                         then [''File '' @ filename patch @
                               '' is both deleted and modified - conflict detected'']
                         else [])) [0 ..< length patches])
      in multi @ both)"

definition join_space :: "string list \<Rightarrow> string" where
  "join_space xs = concat (case xs of [] \<Rightarrow> [] | y # ys \<Rightarrow> y # map (\<lambda>z. '' '' @ z) ys)"

definition generateRollbackPlan :: "UnifiedPatch list \<Rightarrow> string" where
  "generateRollbackPlan patches =
     ''Rollback Plan (if needed):'' @ [CHR 0x0A] @ ''=========================='' @
       [CHR 0x0A, CHR 0x0A] @
     concat (map (\<lambda>patch.
        (if isNewFile patch then ''1. Delete: '' @ filename patch
         else if isDeletedFile patch then ''1. Restore: '' @ filename patch @ '' from backup''
         else ''1. Revert modifications to: '' @ filename patch) @ [CHR 0x0A]) (rev patches)) @
     [CHR 0x0A] @ ''To execute rollback:'' @ [CHR 0x0A] @
     ''  git checkout HEAD -- '' @ join_space (map filename patches) @ [CHR 0x0A] @
     ''  OR manually revert the above changes'' @ [CHR 0x0A]"

definition estimateImpact :: "UnifiedPatch list \<Rightarrow> string" where
  "estimateImpact patches =
     (let fileCount = length patches;
          newFiles = length (filter isNewFile patches);
          deletedFiles = length (filter isDeletedFile patches);
          modifiedFiles = length (filter (\<lambda>p. \<not> isNewFile p \<and> \<not> isDeletedFile p) patches)
      in ''Estimated Impact:'' @ [CHR 0x0A] @ ''=================='' @ [CHR 0x0A, CHR 0x0A] @
         ''Files affected: '' @ show_nat fileCount @ [CHR 0x0A] @
         ''  - Created: '' @ show_nat newFiles @ [CHR 0x0A] @
         ''  - Deleted: '' @ show_nat deletedFiles @ [CHR 0x0A] @
         ''  - Modified: '' @ show_nat modifiedFiles @ [CHR 0x0A, CHR 0x0A] @
         (if 5 < newFiles \<or> 0 < deletedFiles then
            ''Risk Level: HIGH'' @ [CHR 0x0A] @
            ''  - Large-scale changes or deletions'' @ [CHR 0x0A] @
            ''  - Recommended: Thorough review and testing'' @ [CHR 0x0A]
          else if 10 < modifiedFiles then
            ''Risk Level: MEDIUM'' @ [CHR 0x0A] @
            ''  - Multiple files modified'' @ [CHR 0x0A] @
            ''  - Recommended: Standard testing'' @ [CHR 0x0A]
          else
            ''Risk Level: LOW'' @ [CHR 0x0A] @
            ''  - Localized changes'' @ [CHR 0x0A] @
            ''  - Recommended: Basic verification'' @ [CHR 0x0A]))"

text \<open>
  \<^verbatim>\<open>DryRunSimulator.simulatePatches\<close>.  \<open>validateFixes\<close> is \<^verbatim>\<open>FixValidator.validateFixes\<close>,
  which rests on a YAML library outside the repository; the simulator only reads the error
  lists of its answer.
\<close>

definition simulatePatches ::
  "(string \<Rightarrow> (string \<times> string) list \<Rightarrow> FileValidation list) \<Rightarrow> string \<Rightarrow> filesystem
     \<Rightarrow> UnifiedPatch list \<Rightarrow> dry_options \<Rightarrow> DryRunResult" where
  "simulatePatches validateFixes baseDir fs patches options =
     (let s1 = foldl (sim_patch baseDir fs)
                 \<lparr>sim_steps = [], stepNum = 1, n_success = 0, n_warning = 0, n_error = 0,
                  totalLinesChanged = 0\<rparr> patches;
          s2 = (if validateSyntax options then
                  (let validations = validateFixes baseDir (sim_modified_files baseDir fs patches);
                       bad = length (filter (\<lambda>v. 0 < length (errors (result v))) validations)
                   in if has_errors validations then
                        add_step s1 ''validate-syntax'' ''all'' ErrorStatus
                          (''Syntax validation failed for '' @ show_nat bad @ '' file(s)'') None None
                      else
                        add_step s1 ''validate-syntax'' ''all'' Success
                          ''Syntax validation passed'' None None)
                else s1);
          s3 = (if checkConflicts options then
                  (let conflicts = checkForConflicts patches
                   in if 0 < length conflicts then
                        add_step s2 ''check-conflicts'' ''all'' ErrorStatus
                          (''Found '' @ show_nat (length conflicts) @ '' potential conflict(s)'')
                          None None
                      else
                        add_step s2 ''check-conflicts'' ''all'' Success ''No conflicts detected''
                          None None)
                else s2);
          s4 = (if estimatePerformance options then
                  add_step s3 ''estimate-performance'' ''all'' Success
                    ''Performance impact: minimal'' None None
                else s3)
      in \<lparr>dr_success = (n_error s4 = 0),
          summary = \<lparr>totalSteps = length (sim_steps s4), successCount = n_success s4,
                     warningCount = n_warning s4, errorCount = n_error s4,
                     filesAffected = length patches, linesChanged = totalLinesChanged s4\<rparr>,
          steps = sim_steps s4,
          rollbackPlan = generateRollbackPlan patches,
          estimatedImpact = estimateImpact patches\<rparr>)"


definition error_steps :: "DryRunStep list \<Rightarrow> DryRunStep list" where
  "error_steps ss = filter (\<lambda>s. status s = ErrorStatus) ss"


section \<open>FixApplicator\<close>

text \<open>
  What the applicator takes from outside the repository: SHA-256 in hexadecimal
  (\<open>hash\<close>), \<^verbatim>\<open>JSON.stringify\<close> of a record (\<open>stringify\<close>) and the validator's YAML library
  (\<open>validator\<close>).  They are parameters; no property of them is assumed.  Clock readings
  (\<^verbatim>\<open>timestamp\<close>, \<^verbatim>\<open>rollbackTime\<close>) are left out, and the identifier that \<^verbatim>\<open>generateId\<close>
  draws from the clock and from random bytes is an argument.
\<close>

record AppliedPatch =
  ap_filename :: string
  beforeHash :: string
  afterHash :: string
  patchContent :: UnifiedPatch

datatype record_status = Applied | RolledBack | Partial

record ApplicationRecord =
  rec_id :: string
  rec_patches :: "AppliedPatch list"
  rec_decision :: FixGateDecision
  rec_status :: record_status
  rec_error :: "string option"

record platform =
  hash :: "string \<Rightarrow> string"
  stringify :: "ApplicationRecord \<Rightarrow> string"
  validator :: "string \<Rightarrow> (string \<times> string) list \<Rightarrow> FileValidation list"

text \<open>An applicator: its base directory, the working tree and the records it holds.\<close>

record applicator =
  baseDir :: string
  tree :: filesystem
  applicationRecords :: "(string \<times> ApplicationRecord) list"

record apply_options =
  autoApply :: bool
  dryRunFirst :: bool

record apply_result =
  ar_success :: bool
  applicationId :: string
  applied :: "string list"
  ar_errors :: "string list"

record RollbackResult =
  rb_success :: bool
  restored :: "string list"
  rb_errors :: "string list"

record patch_outcome =
  po_success :: bool
  po_beforeHash :: string
  po_afterHash :: string
  po_error :: "string option"

definition recordDir :: "string \<Rightarrow> string" where
  "recordDir base = path_join (path_join base ''.forge'') ''patches''"

text \<open>\<^verbatim>\<open>filename.replace(/\//g, '__')\<close>\<close>

definition flatten_name :: "string \<Rightarrow> string" where
  "flatten_name f = concat (map (\<lambda>c. if c = CHR ''/'' then ''__'' else [c]) f)"

definition getRecordFile :: "string \<Rightarrow> string \<Rightarrow> string \<Rightarrow> string" where
  "getRecordFile base appId f = path_join (path_join (recordDir base) appId) (flatten_name f)"

definition failed_outcome :: "string \<Rightarrow> patch_outcome" where
  "failed_outcome msg =
     \<lparr>po_success = False, po_beforeHash = [], po_afterHash = [], po_error = Some msg\<rparr>"

definition caught :: "UnifiedPatch \<Rightarrow> string \<Rightarrow> patch_outcome" where
  "caught patch msg = failed_outcome (''Error applying patch to '' @ filename patch @ '': '' @ msg)"

text \<open>
  The private \<^verbatim>\<open>applyPatch\<close> of the applicator.  Its body is one \<^verbatim>\<open>try\<close> block: an
  exception of a write or an unlink is turned into an outcome with \<open>success = false\<close>, so
  the method itself never throws.
\<close>

definition applyPatchFile ::
  "platform \<Rightarrow> string \<Rightarrow> filesystem \<Rightarrow> UnifiedPatch \<Rightarrow> patch_outcome \<times> filesystem" where
  "applyPatchFile pf base fs patch =
     (let filePath = path_join base (filename patch)
      in if isNewFile patch then
           (let content = new_file_content patch
            in case writeFileSync fs filePath content of
                 Inl msg \<Rightarrow> (caught patch msg, fs)
               | Inr fs' \<Rightarrow>
                   (\<lparr>po_success = True, po_beforeHash = hash pf [],
                     po_afterHash = hash pf content, po_error = None\<rparr>, fs'))
         else if isDeletedFile patch then
           (if \<not> existsSync fs filePath then
              (failed_outcome (''File to delete not found: '' @ filename patch), fs)
            else
              (let beforeContent = readFileSync fs filePath
               in case unlinkSync fs filePath of
                    Inl msg \<Rightarrow> (caught patch msg, fs)
                  | Inr fs' \<Rightarrow>
                      (\<lparr>po_success = True, po_beforeHash = hash pf beforeContent,
                        po_afterHash = hash pf [], po_error = None\<rparr>, fs')))
         else if \<not> existsSync fs filePath then
           (failed_outcome (''File not found: '' @ filename patch), fs)
         else
           (let beforeContent = readFileSync fs filePath;
                afterContent = applyPatch beforeContent patch
            in case writeFileSync fs filePath afterContent of
                 Inl msg \<Rightarrow> (caught patch msg, fs)
               | Inr fs' \<Rightarrow>
                   (\<lparr>po_success = True, po_beforeHash = hash pf beforeContent,
                     po_afterHash = hash pf afterContent, po_error = None\<rparr>, fs')))"

definition backupFiles :: "string \<Rightarrow> filesystem \<Rightarrow> UnifiedPatch list \<Rightarrow> (string \<times> string) list" where
  "backupFiles base fs patches =
     foldl (\<lambda>backups patch.
        (let filePath = path_join base (filename patch)
         in if \<not> isNewFile patch \<and> existsSync fs filePath
            then map_set backups (filename patch) (readFileSync fs filePath)
            else backups)) [] patches"

text \<open>
  \<^verbatim>\<open>restoreFromBackup\<close>: the first write that throws ends the loop.  The result is the
  message of that exception, if any, and the tree as the loop left it.
\<close>

fun restoreFromBackup ::
  "string \<Rightarrow> filesystem \<Rightarrow> (string \<times> string) list \<Rightarrow> string option \<times> filesystem" where
  "restoreFromBackup base fs [] = (None, fs)"
| "restoreFromBackup base fs ((f, content) # backups) =
     (case writeFileSync fs (path_join base f) content of
        Inl msg \<Rightarrow> (Some msg, fs)
      | Inr fs' \<Rightarrow> restoreFromBackup base fs' backups)"

definition saveRecord :: "platform \<Rightarrow> string \<Rightarrow> filesystem \<Rightarrow> ApplicationRecord \<Rightarrow> string + filesystem" where
  "saveRecord pf base fs r =
     writeFileSync fs (path_join (recordDir base) (rec_id r @ ''.json'')) (stringify pf r)"

text \<open>The state of the loop of step 4 in \<^verbatim>\<open>applyPatches\<close>.\<close>

record apply_state =
  as_tree :: filesystem
  appliedPatches :: "AppliedPatch list"
  as_errors :: "string list"
  as_applied :: "string list"

text \<open>
  One turn of that loop.  The \<^verbatim>\<open>catch\<close> clause around the call, the one that restores the
  backups and returns, needs an exception out of \<^verbatim>\<open>applyPatch\<close>; there is none.
\<close>

definition apply_one :: "platform \<Rightarrow> string \<Rightarrow> apply_state \<Rightarrow> UnifiedPatch \<Rightarrow> apply_state" where
  "apply_one pf base st patch =
     (case applyPatchFile pf base (as_tree st) patch of
        (res, fs') \<Rightarrow>
          if po_success res then
            st\<lparr>as_tree := fs',
               appliedPatches := appliedPatches st @
                 [\<lparr>ap_filename = filename patch, beforeHash = po_beforeHash res,
                   afterHash = po_afterHash res, patchContent = patch\<rparr>],
               as_applied := as_applied st @ [filename patch]\<rparr>
          else
            st\<lparr>as_tree := fs',
               as_errors := as_errors st @
                 [(case po_error res of
                     None \<Rightarrow> ''Failed to apply '' @ filename patch
                   | Some e \<Rightarrow> if e = [] then ''Failed to apply '' @ filename patch else e)]\<rparr>)"

definition failure :: "string \<Rightarrow> string list \<Rightarrow> apply_result" where
  "failure appId errs = \<lparr>ar_success = False, applicationId = appId, applied = [], ar_errors = errs\<rparr>"

text \<open>
  \<^verbatim>\<open>FixApplicator.applyPatches\<close>, with the identifier of the application as an argument.
\<close>

definition applyPatches ::
  "platform \<Rightarrow> applicator \<Rightarrow> string \<Rightarrow> UnifiedPatch list \<Rightarrow> FixGateDecision \<Rightarrow> apply_options
     \<Rightarrow> apply_result \<times> applicator" where
  "applyPatches pf app appId patches decision options =
     (let dry = simulatePatches (validator pf) (baseDir app) (tree app) patches
                  \<lparr>validateSyntax = True, checkConflicts = True, estimatePerformance = False\<rparr>
      in if dryRunFirst options \<and> \<not> dr_success dry then
           (failure appId
              (map step_message (filter (\<lambda>s. status s = ErrorStatus) (steps dry))), app)
         else if action decision \<noteq> AutoApply \<and> \<not> autoApply options then
           (failure appId
              [''Fix action is '' @ [CHR 0x22] @ action_name (action decision) @ [CHR 0x22] @
               '' - not allowed to apply automatically''], app)
         else
           (let backups = backupFiles (baseDir app) (tree app) patches;
                st = foldl (apply_one pf (baseDir app))
                       \<lparr>as_tree = tree app, appliedPatches = [], as_errors = [], as_applied = []\<rparr>
                       patches;
                r = \<lparr>rec_id = appId, rec_patches = appliedPatches st, rec_decision = decision,
                     rec_status = (if length (as_errors st) = 0 then Applied else Partial),
                     rec_error = (case as_errors st of [] \<Rightarrow> None | e # _ \<Rightarrow> Some e)\<rparr>;
                recs = map_set (applicationRecords app) appId r
            in case saveRecord pf (baseDir app) (as_tree st) r of
                 Inr fs' \<Rightarrow>
                   (\<lparr>ar_success = (length (as_errors st) = 0), applicationId = appId,
                     applied = as_applied st, ar_errors = as_errors st\<rparr>,
                    app\<lparr>tree := fs', applicationRecords := recs\<rparr>)
               | Inl msg \<Rightarrow>
                   (case restoreFromBackup (baseDir app) (as_tree st) backups of
                      (None, fs') \<Rightarrow>
                        (failure appId [''Fatal error during patch application: '' @ msg],
                         app\<lparr>tree := fs', applicationRecords := recs\<rparr>)
                    | (Some msg', fs') \<Rightarrow>
                        (failure appId [''Error during patch application: '' @ msg'],
                         app\<lparr>tree := fs', applicationRecords := recs\<rparr>))))"

record rollback_state =
  rs_tree :: filesystem
  rs_restored :: "string list"
  rs_errors :: "string list"

text \<open>The body of the loop of \<^verbatim>\<open>rollback\<close> for one applied patch.\<close>

definition rollback_one ::
  "platform \<Rightarrow> string \<Rightarrow> string \<Rightarrow> rollback_state \<Rightarrow> AppliedPatch \<Rightarrow> rollback_state" where
  "rollback_one pf base appId st ap =
     (let recordFile = getRecordFile base appId (ap_filename ap);
          fs = rs_tree st;
          thrown = (\<lambda>msg. st\<lparr>rs_errors := rs_errors st @
                                  [''Error rolling back '' @ ap_filename ap @ '': '' @ msg]\<rparr>);
          done = (\<lambda>fs'. st\<lparr>rs_tree := fs', rs_restored := rs_restored st @ [ap_filename ap]\<rparr>)
      in if existsSync fs recordFile then
           (let backupContent = readFileSync fs recordFile;
                filePath = path_join base (ap_filename ap)
            in if beforeHash ap = hash pf [] then
                 (if existsSync fs filePath then
                    (case unlinkSync fs filePath of Inl msg \<Rightarrow> thrown msg | Inr fs' \<Rightarrow> done fs')
                  else done fs)
               else
                 (case writeFileSync fs filePath backupContent of
                    Inl msg \<Rightarrow> thrown msg
                  | Inr fs' \<Rightarrow> done fs'))
         else st\<lparr>rs_errors := rs_errors st @ [''Backup not found for: '' @ ap_filename ap]\<rparr>)"

text \<open>
  \<^verbatim>\<open>FixApplicator.rollback\<close>.  \<open>Inl\<close> is the exception of the final \<^verbatim>\<open>saveRecord\<close>, which
  nothing catches.
\<close>

definition rollback :: "platform \<Rightarrow> applicator \<Rightarrow> string \<Rightarrow> (string + RollbackResult) \<times> applicator" where
  "rollback pf app appId =
     (case map_of (applicationRecords app) appId of
        None \<Rightarrow>
          (Inr \<lparr>rb_success = False, restored = [],
                rb_errors = [''Application record not found: '' @ appId]\<rparr>, app)
      | Some r \<Rightarrow>
          (let st = foldl (rollback_one pf (baseDir app) appId)
                      \<lparr>rs_tree = tree app, rs_restored = [], rs_errors = []\<rparr> (rev (rec_patches r));
               r' = r\<lparr>rec_status := (if length (rs_errors st) = 0 then RolledBack else Partial)\<rparr>;
               recs = map_set (applicationRecords app) appId r'
           in case saveRecord pf (baseDir app) (rs_tree st) r' of
                Inl msg \<Rightarrow> (Inl msg, app\<lparr>tree := rs_tree st, applicationRecords := recs\<rparr>)
              | Inr fs' \<Rightarrow>
                  (Inr \<lparr>rb_success = (length (rs_errors st) = 0), restored = rs_restored st,
                        rb_errors = rs_errors st\<rparr>,
                   app\<lparr>tree := fs', applicationRecords := recs\<rparr>)))"


section \<open>Inputs of the worked examples\<close>



text \<open>
  A validation that reports one error, and two patches without hunks: one of a file whose
  path holds the word \<^verbatim>\<open>auth\<close>, one of a file whose path matches neither lexicon.
\<close>

definition broken_validation :: FileValidation where
  "broken_validation =
     \<lparr>val_filename = ''src/login.ts'', extension = ''.ts'',
      result = \<lparr>valid = False, errors = [''Unbalanced braces''], warnings = [], fix_hints = []\<rparr>\<rparr>"

definition auth_patch :: UnifiedPatch where
  "auth_patch =
     \<lparr>filename = ''src/auth.ts'', hunks = [], isNewFile = False, isDeletedFile = False,
      isBinaryFile = False\<rparr>"

definition plain_patch :: UnifiedPatch where
  "plain_patch =
     \<lparr>filename = ''src/login.ts'', hunks = [], isNewFile = False, isDeletedFile = False,
      isBinaryFile = False\<rparr>"

text \<open>
  The standard patch that turns the document \<open>a, b, c\<close> into \<open>a, x, c\<close>: one hunk at line 1
  with a line of context on each side of the change.
\<close>

definition context_patch :: UnifiedPatch where
  "context_patch =
     \<lparr>filename = ''f.txt'',
      hunks = [\<lparr>hunk_filename = ''f.txt'', oldStart = 1, oldLines = 3, newStart = 1, newLines = 3,
                lines = ['' a'', ''-b'', ''+x'', '' c'']\<rparr>],
      isNewFile = False, isDeletedFile = False, isBinaryFile = False\<rparr>"

text \<open>
  A working tree \<^verbatim>\<open>/w\<close> with the one file \<^verbatim>\<open>a.txt\<close> of content \<open>x\<close>, nothing locked; a
  patch that creates \<^verbatim>\<open>a.txt\<close> with the line \<open>y\<close>, one that deletes the absent file
  \<^verbatim>\<open>gone.txt\<close>, and the simulator's options all off.  The validator of the examples reports
  no file.
\<close>

definition small_tree :: filesystem where
  "small_tree = \<lparr>files = [''/w/a.txt'' \<mapsto> ''x''], locked = (\<lambda>p. False)\<rparr>"




definition silent_validator :: "string \<Rightarrow> (string \<times> string) list \<Rightarrow> FileValidation list" where
  "silent_validator base modified = []"





text \<open>
  An applicator on the tree above that holds no record yet; a patch that replaces the line
  \<open>x\<close> of \<^verbatim>\<open>a.txt\<close> by \<open>y\<close>, one that creates \<^verbatim>\<open>b.txt\<close> with the line \<open>n\<close>, one that
  modifies the absent file \<^verbatim>\<open>gone.txt\<close>; a decision to apply automatically; the default
  options of \<^verbatim>\<open>applyPatches\<close>, and the options without the dry run.
\<close>

definition fresh_applicator :: applicator where
  "fresh_applicator = \<lparr>baseDir = ''/w'', tree = small_tree, applicationRecords = []\<rparr>"

definition modify_a :: UnifiedPatch where
  "modify_a =
     \<lparr>filename = ''a.txt'',
      hunks = [\<lparr>hunk_filename = ''a.txt'', oldStart = 1, oldLines = 1, newStart = 1, newLines = 1,
                lines = [''-x'', ''+y'']\<rparr>],
      isNewFile = False, isDeletedFile = False, isBinaryFile = False\<rparr>"

definition create_b :: UnifiedPatch where
  "create_b =
     \<lparr>filename = ''b.txt'',
      hunks = [\<lparr>hunk_filename = ''b.txt'', oldStart = 0, oldLines = 0, newStart = 1, newLines = 1,
                lines = [''+n'']\<rparr>],
      isNewFile = True, isDeletedFile = False, isBinaryFile = False\<rparr>"

definition modify_gone :: UnifiedPatch where
  "modify_gone =
     \<lparr>filename = ''gone.txt'',
      hunks = [\<lparr>hunk_filename = ''gone.txt'', oldStart = 1, oldLines = 1, newStart = 1,
                newLines = 1, lines = [''-p'', ''+q'']\<rparr>],
      isNewFile = False, isDeletedFile = False, isBinaryFile = False\<rparr>"

definition auto_decision :: FixGateDecision where
  "auto_decision =
     \<lparr>action = AutoApply, confidence = 95 / 100,
      reasoning = ''High confidence (95.0%) - safe to auto-apply'', risks = [],
      recommendations = [''Fix looks good - proceed with confidence'']\<rparr>"

definition default_options :: apply_options where
  "default_options = \<lparr>autoApply = False, dryRunFirst = True\<rparr>"

definition no_dry_run :: apply_options where
  "no_dry_run = \<lparr>autoApply = False, dryRunFirst = False\<rparr>"


section \<open>Lines of a text\<close>

lemma split_nl_ne: "split_nl s \<noteq> []"
  by (induction s) (auto split: list.splits)

lemma split_nl_append: "split_nl (a @ CHR 0x0A # b) = split_nl a @ split_nl b"
  by (induction a) (auto split: list.splits simp: split_nl_ne)

lemma split_nl_no_nl: "CHR 0x0A \<notin> set l \<Longrightarrow> split_nl l = [l]"
  by (induction l) auto

lemma split_nl_lines: "l \<in> set (split_nl s) \<Longrightarrow> CHR 0x0A \<notin> set l"
  by (induction s arbitrary: l) (auto split: if_splits list.splits)

lemma split_join: "xs \<noteq> [] \<Longrightarrow> split_nl (join_nl xs) = concat (map split_nl xs)"
  by (induction xs rule: join_nl.induct) (auto simp: split_nl_append)

lemma digit_char_not_nl: "d < 10 \<Longrightarrow> digit_char d \<noteq> CHR 0x0A"
proof
  assume d: "d < 10" and eq: "digit_char d = CHR 0x0A"
  from eq have "(of_char (digit_char d) :: int) = of_char (CHR 0x0A)" by simp
  with d show False by (simp add: digit_char_def)
qed

lemma show_nat_fuel_no_nl: "CHR 0x0A \<notin> set (show_nat_fuel f n)"
proof (induction f n rule: show_nat_fuel.induct)
  case (1 n)
  have "n mod 10 < 10" by simp
  then show ?case using digit_char_not_nl [of "n mod 10"] by auto
next
  case (2 f n)
  have "n mod 10 < 10" by simp
  then show ?case using 2 digit_char_not_nl [of "n mod 10"] digit_char_not_nl [of n] by auto
qed

lemma show_int_no_nl: "CHR 0x0A \<notin> set (show_int i)"
  by (simp add: show_int_def show_nat_def show_nat_fuel_no_nl)

lemma marker_text_no_nl: "CHR 0x0A \<notin> set (marker_text n)"
  by (simp add: marker_text_def show_int_no_nl)

lemma split_pruning_marker: "split_nl (pruning_marker n) = ['''', marker_text n, '''']"
  using split_nl_append [of "[]" "marker_text n @ [CHR 0x0A]"]
    split_nl_append [of "marker_text n" "[]"]
  by (simp add: pruning_marker_def split_nl_no_nl marker_text_no_nl)

lemma concat_split_lines:
  "\<forall>l \<in> set ls. CHR 0x0A \<notin> set l \<Longrightarrow> concat (map split_nl ls) = ls"
  by (induction ls) (auto simp: split_nl_no_nl)

lemma split_join_take: "concat (map split_nl (take k (split_nl s))) = take k (split_nl s)"
  by (rule concat_split_lines) (auto dest: in_set_takeD split_nl_lines)

lemma split_join_drop: "concat (map split_nl (drop k (split_nl s))) = drop k (split_nl s)"
  by (rule concat_split_lines) (auto dest: in_set_dropD split_nl_lines)

lemma js_slice_head: "0 \<le> h \<Longrightarrow> js_slice xs 0 (Some h) = take (nat h) xs"
  by (auto simp: js_slice_def js_rel_index_def Let_def min_def)

lemma js_slice_tail: "0 < t \<Longrightarrow> js_slice xs (- t) None = drop (length xs - nat t) xs"
  by (auto simp: js_slice_def js_rel_index_def Let_def max_def nat_diff_distrib'
      intro: arg_cong2 [where f = drop])


section \<open>Pruning (claim C6)\<close>

text \<open>
  Claim C6, as the source has it.  For head \<open>h \<ge> 0\<close> and tail \<open>t > 0\<close>: a log of more than
  \<open>h + t\<close> lines is pruned to its first \<open>h\<close> lines, then three lines that \<open>prune\<close> makes up
  (an empty line, the marker line with the number of omitted lines, an empty line), then its
  last \<open>t\<close> lines, and \<open>h + t + prunedLines = totalLines\<close>; a log of at most \<open>h + t\<close> lines
  comes back unchanged with \<open>prunedLines = 0\<close>.
\<close>

theorem prune_shape:
  assumes "0 \<le> h" and "0 < t"
  shows "let ls = split_nl logs; total = int (length ls); r = prune logs h t in
     totalLines r = total \<and>
     (if total \<le> h + t then pruned r = logs \<and> prunedLines r = 0
      else split_nl (pruned r) =
             take (nat h) ls @ ['''', marker_text (prunedLines r), ''''] @
             drop (length ls - nat t) ls
         \<and> h + t + prunedLines r = total)"
  using assms
  by (simp add: prune_def Let_def split_join js_slice_head js_slice_tail split_join_take
      split_join_drop split_pruning_marker)

theorem prune_shape_witness:
  "(0::int) \<le> 1 \<and> (0::int) < 2 \<and>
   split_nl (pruned (prune ''a\<newline>b\<newline>c\<newline>d'' 1 2)) =
     [''a'', [], ''[FORGE LOG PRUNING: Removed 1 lines of intermediate build output]'', [],
      ''c'', ''d''] \<and>
   prunedLines (prune ''a\<newline>b\<newline>c\<newline>d'' 1 2) = 1 \<and>
   totalLines (prune ''a\<newline>b\<newline>c\<newline>d'' 1 2) = 4"
proof -
  have e: "split_nl ''a\<newline>b\<newline>c\<newline>d'' = [''a'', ''b'', ''c'', ''d'']"
    by code_simp
  have m: "marker_text 1 = ''[FORGE LOG PRUNING: Removed 1 lines of intermediate build output]''"
    by code_simp
  show ?thesis
    using prune_shape [of 1 2 "''a\<newline>b\<newline>c\<newline>d''"] m
    by (simp add: Let_def e)
qed

text \<open>
  The claim as stated says that the marker is the only line of the output that is not a line
  of the log.  On the three-line log \<open>a, b, c\<close> with head 1 and tail 1 the output holds three
  such lines.
\<close>

theorem prune_marker_counterexample:
  "synthesised ''a\<newline>b\<newline>c'' (pruned (prune ''a\<newline>b\<newline>c'' 1 1)) \<noteq> [marker_text 1]"
  by code_simp

text \<open>
  With a tail of 0 the call \<^verbatim>\<open>lines.slice(-0)\<close> is \<^verbatim>\<open>lines.slice(0)\<close>: the whole log
  follows the marker.
\<close>

lemma prune_zero_tail:
  "split_nl (pruned (prune ''a\<newline>b'' 1 0)) =
     [''a'', [], ''[FORGE LOG PRUNING: Removed 1 lines of intermediate build output]'', [],
      ''a'', ''b'']"
  by code_simp


section \<open>Redaction (claim C7)\<close>









text \<open>
  The placeholders themselves are clean: none of the ten holds a match of any pattern.
\<close>

lemma placeholder_names:
  "map (\<lambda>sp. placeholder (name sp)) SECRET_PATTERNS =
     [''[REDACTED_GITHUB_TOKEN]'', ''[REDACTED_GITHUB_USER_TOKEN]'',
      ''[REDACTED_GITHUB_APP_TOKEN]'', ''[REDACTED_AWS_ACCESS_KEY]'',
      ''[REDACTED_AWS_SECRET_KEY]'', ''[REDACTED_BASIC_AUTH_URL]'',
      ''[REDACTED_EMAIL_ADDRESS]'', ''[REDACTED_BEARER_TOKEN]'',
      ''[REDACTED_AUTHORIZATION_HEADER]'', ''[REDACTED_TOKEN_VALUE]'']"
  by code_simp

lemma placeholders_clean:
  "secretsCount (redact ''[REDACTED_GITHUB_TOKEN]'') = 0"
  "secretsCount (redact ''[REDACTED_GITHUB_USER_TOKEN]'') = 0"
  "secretsCount (redact ''[REDACTED_GITHUB_APP_TOKEN]'') = 0"
  "secretsCount (redact ''[REDACTED_AWS_ACCESS_KEY]'') = 0"
  "secretsCount (redact ''[REDACTED_AWS_SECRET_KEY]'') = 0"
  "secretsCount (redact ''[REDACTED_BASIC_AUTH_URL]'') = 0"
  "secretsCount (redact ''[REDACTED_EMAIL_ADDRESS]'') = 0"
  "secretsCount (redact ''[REDACTED_BEARER_TOKEN]'') = 0"
  "secretsCount (redact ''[REDACTED_AUTHORIZATION_HEADER]'') = 0"
  "secretsCount (redact ''[REDACTED_TOKEN_VALUE]'') = 0"
  by code_simp+


section \<open>Confidence score (claim C8)\<close>






section \<open>Confidence gate (claim C4)\<close>

text \<open>
  Claim C4, as the source has it.  When a validation reports an error, the gate rejects
  unless the security rule or the performance rule applies, whatever the confidence, the
  thresholds and the critical-failure flag are.  These two rules are checked first: when
  one of them applies the action is manual review, validation errors or not.
\<close>

theorem evaluateFix_validation_errors:
  assumes "has_errors validations"
  shows "action (evaluateFix config conf validations patches isCritical riskFactors) =
           (if requiresSecurityReview config \<and> touchesSecurityCode patches then ManualReviewAction
            else if requiresPerformanceReview config \<and> touchesPerformanceCriticalCode patches
            then ManualReviewAction
            else Reject)"
  using assms by (simp add: evaluateFix_def has_errors_def Let_def)

theorem evaluateFix_validation_errors_witness:
  "has_errors [broken_validation] \<and>
   action (evaluateFix default_config (95 / 100) [broken_validation] [plain_patch] False []) =
     Reject"
proof -
  have h: "has_errors [broken_validation]"
    by code_simp
  have s: "\<not> touchesSecurityCode [plain_patch]"
    by code_simp
  have p: "\<not> touchesPerformanceCriticalCode [plain_patch]"
    by code_simp
  from evaluateFix_validation_errors [OF h, of default_config "95 / 100" "[plain_patch]" False "[]"]
    h s p
  show ?thesis by simp
qed

text \<open>
  The claim as stated fails for a gate with the default configuration and a patch of
  \<^verbatim>\<open>src/auth.ts\<close>: the validation reports an error, and the action is manual review.
\<close>

theorem evaluateFix_reject_counterexample:
  "has_errors [broken_validation] \<and>
   action (evaluateFix default_config (95 / 100) [broken_validation] [auth_patch] False []) =
     ManualReviewAction"
  by code_simp


section \<open>Hunk counts (claim C5)\<close>

lemma count_prefixed:
  "length (filter ((\<lambda>l. startsWith l c) \<circ> (#) d) ls) = (if c = d then length ls else 0)"
  by (induction ls) (auto simp: startsWith_def)

text \<open>
  The part of claim C5 about created and deleted files holds: the single hunk of such a
  patch carries the counts of its lines, with \<open>oldStart = 0\<close>, \<open>oldLines = 0\<close> for a created
  file and \<open>newStart = 0\<close>, \<open>newLines = 0\<close> for a deleted one.
\<close>

lemma generatePatch_new_file:
  assumes "original = []" and "modified \<noteq> []"
  shows "\<exists>h. hunks (generatePatch f original modified context) = [h] \<and>
             oldStart h = 0 \<and> oldLines h = 0 \<and> hunk_counts_ok h"
  using assms
  by (simp add: generatePatch_def Let_def hunk_counts_ok_def count_context_def count_add_def
      count_remove_def count_prefixed)

lemma generatePatch_deleted_file:
  assumes "original \<noteq> []" and "modified = []"
  shows "\<exists>h. hunks (generatePatch f original modified context) = [h] \<and>
             newStart h = 0 \<and> newLines h = 0 \<and> hunk_counts_ok h"
  using assms
  by (simp add: generatePatch_def Let_def hunk_counts_ok_def count_context_def count_add_def
      count_remove_def count_prefixed)

text \<open>
  Claim C5 on the code: the patch that \<open>generatePatch\<close> computes between the documents
  \<open>a, b, c\<close> and \<open>a, x, c\<close> with three lines of context.  Its one hunk holds two context
  lines, one removed and one added line, and its header says \<open>oldLines = 0\<close> and
  \<open>newLines = 0\<close>: the counts of a hunk are only written when a later run of equal lines
  closes it, never for the hunk that is open when the loop ends.
\<close>

theorem generatePatch_counts_failing:
  "hunks (generatePatch ''f.txt'' ''a\<newline>b\<newline>c'' ''a\<newline>x\<newline>c'' 3) =
     [\<lparr>hunk_filename = ''f.txt'', oldStart = 1, oldLines = 0, newStart = 1, newLines = 0,
       lines = ['' a'', ''-b'', ''+x'', '' c'']\<rparr>] \<and>
   \<not> list_all hunk_counts_ok
        (hunks (generatePatch ''f.txt'' ''a\<newline>b\<newline>c'' ''a\<newline>x\<newline>c'' 3))"
  by code_simp


section \<open>Reversing a patch (claim C3)\<close>

text \<open>
  Claim C3 on the code: the patch above applies to the document \<open>a, b, c\<close>, yet
  \<open>applyPatch\<close> turns the document into \<open>x, b, c\<close>, and the reversed patch turns that into
  \<open>b, b, c\<close>.  \<open>applyHunk\<close> removes as many lines as the hunk has removed lines at
  \<open>oldStart\<close> itself, where the context of the hunk stands, and inserts at \<open>newStart\<close>.
\<close>

theorem reversePatch_round_trip_failing:
  "patch_applies ''a\<newline>b\<newline>c'' context_patch \<and>
   list_all hunk_counts_ok (hunks context_patch) \<and>
   applyPatch ''a\<newline>b\<newline>c'' context_patch = ''x\<newline>b\<newline>c'' \<and>
   applyPatch (applyPatch ''a\<newline>b\<newline>c'' context_patch) (reversePatch context_patch) =
     ''b\<newline>b\<newline>c''"
  by code_simp


section \<open>Dry run (claim C10)\<close>

lemma add_step_steps:
  "\<exists>s. sim_steps (add_step st act f stat msg bc ac) = sim_steps st @ [s] \<and>
       step_action s = act \<and> step_file s = f \<and> status s = stat"
  by (simp add: add_step_def)

lemma add_step_errors:
  "n_error st = length (error_steps (sim_steps st)) \<Longrightarrow>
   n_error (add_step st act f stat msg bc ac) =
     length (error_steps (sim_steps (add_step st act f stat msg bc ac)))"
  by (simp add: add_step_def error_steps_def)










section \<open>Order of the failure events (claim C9)\<close>

lemma detect_line_number: "detect_line rs ls i = Some e \<Longrightarrow> lineNumber e = int i + 1"
  by (auto simp: detect_line_def Let_def split: option.splits)



text \<open>
  The half of the claim that holds: \<open>detectFailures\<close> returns the events by rising line
  number.
\<close>

lemma detectFailures_ascending: "sorted_wrt (<) (map lineNumber (detectFailures rs logtext))"
proof -
  let ?ls = "split_nl logtext"
  let ?f = "detect_line rs ?ls"
  let ?hits = "filter (\<lambda>i. ?f i \<noteq> None) [0 ..< length ?ls]"
  have "map lineNumber (List.map_filter ?f [0 ..< length ?ls]) = map (\<lambda>i. int i + 1) ?hits"
    by (auto simp: List.map_filter_def dest: detect_line_number)
  moreover have "sorted_wrt (<) ?hits"
    by (rule sorted_wrt_filter) simp
  then have "sorted_wrt (\<lambda>x y. int x + 1 < int y + 1) ?hits"
    by (rule sorted_wrt_mono_rel [rotated]) simp
  then have "sorted_wrt (<) (map (\<lambda>i. int i + 1) ?hits)"
    by (simp only: sorted_wrt_map)
  ultimately show ?thesis
    by (simp only: detectFailures_def Let_def)
qed



section \<open>Applying patches (claim C2)\<close>

text \<open>
  Claim C2 on the code.  Without the dry run, the applicator is given a patch of the absent
  file \<^verbatim>\<open>gone.txt\<close> and then a patch of \<^verbatim>\<open>a.txt\<close>.  The first patch fails; the second is
  attempted all the same and applied, nothing is restored, and the call returns failure
  with \<^verbatim>\<open>a.txt\<close> rewritten and a record of status \<open>partial\<close>.  This holds for every hash
  function, serialiser and validator.
\<close>

theorem applyPatches_continues_failing:
  "(case applyPatches pf fresh_applicator ''id1'' [modify_gone, modify_a] auto_decision no_dry_run of
      (r, app) \<Rightarrow>
        r = \<lparr>ar_success = False, applicationId = ''id1'', applied = [''a.txt''],
             ar_errors = [''File not found: gone.txt'']\<rparr> \<and>
        files (tree fresh_applicator) ''/w/a.txt'' = Some ''x'' \<and>
        files (tree app) ''/w/a.txt'' = Some ''y'' \<and>
        map (rec_status \<circ> snd) (applicationRecords app) = [Partial])"
  by code_simp

text \<open>
  The same with the default options, dry run included: \<^verbatim>\<open>a.txt\<close> cannot be written, which
  no dry run sees.  The exception is caught inside the private \<^verbatim>\<open>applyPatch\<close>, the patch
  that follows is applied, and nothing is restored.
\<close>

lemma applyPatches_continues_after_exception:
  "(case applyPatches \<lparr>hash = h, stringify = j, validator = silent_validator\<rparr>
           (fresh_applicator\<lparr>tree := small_tree\<lparr>locked := (\<lambda>p. p = ''/w/a.txt'')\<rparr>\<rparr>) ''id1''
           [modify_a, create_b] auto_decision default_options of
      (r, app) \<Rightarrow>
        r = \<lparr>ar_success = False, applicationId = ''id1'', applied = [''b.txt''],
             ar_errors =
               [''Error applying patch to a.txt: EACCES: permission denied, open /w/a.txt'']\<rparr> \<and>
        files (tree app) ''/w/a.txt'' = Some ''x'' \<and>
        files (tree app) ''/w/b.txt'' = Some ''n'' \<and>
        map (rec_status \<circ> snd) (applicationRecords app) = [Partial])"
  by code_simp


section \<open>Rollback (claim C1)\<close>

text \<open>
  Claim C1 on the code.  With the default options and a validator that reports nothing, the
  applicator creates \<^verbatim>\<open>b.txt\<close> and modifies \<^verbatim>\<open>a.txt\<close>; the application succeeds and the
  recorded hashes are those of the contents before and after.  The rollback of this
  application restores nothing: it reports that no backup is found for either file, the
  modified \<^verbatim>\<open>a.txt\<close> keeps its new content and the created \<^verbatim>\<open>b.txt\<close> still exists.
  \<open>rollback\<close> reads the backup of a file from the record directory of the application, and
  \<open>applyPatches\<close> keeps its backups in memory only.
\<close>

theorem rollback_restores_nothing_failing:
  "(case applyPatches \<lparr>hash = h, stringify = j, validator = silent_validator\<rparr> fresh_applicator
           ''id1'' [create_b, modify_a] auto_decision default_options of
      (r1, app1) \<Rightarrow>
        r1 = \<lparr>ar_success = True, applicationId = ''id1'', applied = [''b.txt'', ''a.txt''],
              ar_errors = []\<rparr> \<and>
        files (tree app1) ''/w/a.txt'' = Some ''y'' \<and>
        files (tree app1) ''/w/b.txt'' = Some ''n'' \<and>
        map (\<lambda>(i, r). (i, rec_status r,
               map (\<lambda>p. (ap_filename p, beforeHash p, afterHash p)) (rec_patches r)))
          (applicationRecords app1) =
          [(''id1'', Applied,
            [(''b.txt'', h [], h ''n''), (''a.txt'', h ''x'', h ''y'')])] \<and>
        (case rollback \<lparr>hash = h, stringify = j, validator = silent_validator\<rparr> app1 ''id1'' of
           (r2, app2) \<Rightarrow>
             r2 = Inr \<lparr>rb_success = False, restored = [],
                       rb_errors = [''Backup not found for: a.txt'',
                                    ''Backup not found for: b.txt'']\<rparr> \<and>
             files (tree app2) ''/w/a.txt'' = Some ''y'' \<and>
             files (tree app2) ''/w/b.txt'' = Some ''n'' \<and>
             map (rec_status \<circ> snd) (applicationRecords app2) = [Partial]))"
  by code_simp


end
